theory Spec2Isabelle
  imports Complex_Main
begin

section \<open>Python values used by the call-state reconciliation code\<close>

subsection \<open>Strings\<close>

text \<open>
  The Python string methods that the reconciliation code applies: \<open>str.lower\<close>,
  \<open>str.replace("-", "_")\<close>, the substring test \<open>sub in s\<close> and \<open>str.strip\<close>.
  A \<^typ>\<open>string\<close> is a list of 8-bit characters. \<open>lower_char\<close> maps the ASCII capitals to
  their small letters and leaves every other character alone; all keywords that the
  code searches for are ASCII.
\<close>

definition lower_table :: "(char \<times> char) list" where
  "lower_table = zip ''ABCDEFGHIJKLMNOPQRSTUVWXYZ'' ''abcdefghijklmnopqrstuvwxyz''"

definition lower_char :: "char \<Rightarrow> char" where
  "lower_char c = (case map_of lower_table c of Some d \<Rightarrow> d | None \<Rightarrow> c)"

definition py_lower :: "string \<Rightarrow> string" where
  "py_lower s = map lower_char s"

definition py_replace_hyphen :: "string \<Rightarrow> string" where
  "py_replace_hyphen s = map (\<lambda>c. if c = CHR ''-'' then CHR ''_'' else c) s"

fun starts_with :: "string \<Rightarrow> string \<Rightarrow> bool" where
  "starts_with [] s = True"
| "starts_with (p # ps) [] = False"
| "starts_with (p # ps) (c # cs) = (p = c \<and> starts_with ps cs)"

fun py_in :: "string \<Rightarrow> string \<Rightarrow> bool" where
  "py_in sub [] = (sub = [])"
| "py_in sub (c # cs) = (starts_with sub (c # cs) \<or> py_in sub cs)"

definition is_space :: "char \<Rightarrow> bool" where
  "is_space c = (c \<in> set [CHR '' '', CHR 0x09, CHR 0x0A, CHR 0x0B, CHR 0x0C, CHR 0x0D,
                            CHR 0x1C, CHR 0x1D, CHR 0x1E, CHR 0x1F, CHR 0x85, CHR 0xA0])"

definition py_strip :: "string \<Rightarrow> string" where
  "py_strip s = rev (dropWhile is_space (rev (dropWhile is_space s)))"

subsection \<open>JSON values\<close>

datatype json =
    JNull
  | JBool bool
  | JNum rat
  | JStr string
  | JArr "json list"
  | JObj "(string \<times> json) list"

type_synonym dict = "(string \<times> json) list"

text \<open>Python truthiness of a decoded JSON value.\<close>

fun truthy :: "json \<Rightarrow> bool" where
  "truthy JNull = False"
| "truthy (JBool b) = b"
| "truthy (JNum r) = (r \<noteq> 0)"
| "truthy (JStr s) = (s \<noteq> [])"
| "truthy (JArr xs) = (xs \<noteq> [])"
| "truthy (JObj d) = (d \<noteq> [])"

text \<open>
  A \<open>dict\<close> keeps its keys in insertion order. \<open>d[k] = v\<close> overwrites the value of a
  key that is present where it stands and appends a new key at the end.
\<close>

fun dict_set :: "dict \<Rightarrow> string \<Rightarrow> json \<Rightarrow> dict" where
  "dict_set [] k v = [(k, v)]"
| "dict_set ((k', v') # d) k v = (if k' = k then (k, v) # d else (k', v') # dict_set d k v)"

definition dict_get :: "dict \<Rightarrow> string \<Rightarrow> json option" where
  "dict_get d k = map_of d k"

text \<open>
  Python's \<open>==\<close> on decoded JSON: numbers compare by value (a bool counts as 0 or 1),
  lists compare element by element, and two dicts are equal when they have the same
  keys with equal values, in whatever order.
\<close>

fun py_eq :: "json \<Rightarrow> json \<Rightarrow> bool"
  and py_eq_list :: "json list \<Rightarrow> json list \<Rightarrow> bool"
  and py_sub_dict :: "dict \<Rightarrow> dict \<Rightarrow> bool" where
  "py_eq JNull b = (b = JNull)"
| "py_eq (JBool x) b = (case b of JBool y \<Rightarrow> x = y | JNum r \<Rightarrow> r = of_bool x | _ \<Rightarrow> False)"
| "py_eq (JNum r) b = (case b of JBool y \<Rightarrow> r = of_bool y | JNum q \<Rightarrow> r = q | _ \<Rightarrow> False)"
| "py_eq (JStr s) b = (b = JStr s)"
| "py_eq (JArr xs) b = (case b of JArr ys \<Rightarrow> py_eq_list xs ys | _ \<Rightarrow> False)"
| "py_eq (JObj d) b = (case b of JObj e \<Rightarrow> length d = length e \<and> py_sub_dict d e | _ \<Rightarrow> False)"
| "py_eq_list [] ys = (ys = [])"
| "py_eq_list (x # xs) ys = (case ys of [] \<Rightarrow> False | y # ys' \<Rightarrow> py_eq x y \<and> py_eq_list xs ys')"
| "py_sub_dict [] e = True"
| "py_sub_dict ((k, v) # d) e =
     ((case map_of e k of None \<Rightarrow> False | Some w \<Rightarrow> py_eq v w) \<and> py_sub_dict d e)"

section \<open>Status lattice (calls/constants.py, calls/models.py)\<close>

definition ACTIVE_STATUSES :: "string list" where
  "ACTIVE_STATUSES = [''pending'', ''queued'', ''initiated'', ''ringing'', ''in-progress'']"

definition STALE_ELIGIBLE_STATUSES :: "string list" where
  "STALE_ELIGIBLE_STATUSES = [''pending'', ''queued'']"

definition TERMINAL_STATUSES :: "string list" where
  "TERMINAL_STATUSES =
     [''completed'', ''failed'', ''cancelled'', ''no-answer'', ''busy'', ''voicemail'']"

definition STATUS_ORDER :: "(string \<times> int) list" where
  "STATUS_ORDER =
     [(''pending'', 0), (''queued'', 1), (''initiated'', 2), (''ringing'', 3),
      (''in-progress'', 4), (''completed'', 10), (''failed'', 10), (''cancelled'', 10),
      (''no-answer'', 10), (''busy'', 10), (''voicemail'', 10)]"


text \<open>\<open>STATUS_ORDER.get(s, 0)\<close>\<close>

definition status_order :: "string \<Rightarrow> int" where
  "status_order s = (case map_of STATUS_ORDER s of Some n \<Rightarrow> n | None \<Rightarrow> 0)"

text \<open>The members of \<open>CallStatus\<close>, the canonical status lattice.\<close>

definition CallStatus :: "string list" where
  "CallStatus = ACTIVE_STATUSES @ TERMINAL_STATUSES"

section \<open>Outcome normalizer and transition guard\<close>

text \<open>\<open>_is_valid_status_transition\<close> of calls/services/calls.py.\<close>

definition is_valid_status_transition :: "string \<Rightarrow> string \<Rightarrow> bool" where
  "is_valid_status_transition current new =
     (let current_order = status_order current;
          new_order = status_order new
      in if new_order \<ge> 10 then True else new_order \<ge> current_order)"

text \<open>\<open>_is_valid_transition\<close> of calls/services/webhook.py.\<close>

definition is_valid_transition :: "string \<Rightarrow> string \<Rightarrow> bool" where
  "is_valid_transition current new =
     (let current_order = status_order current;
          new_order = status_order new
      in if new_order \<ge> 10 then True else new_order \<ge> current_order)"

text \<open>
  \<open>_map_ended_reason\<close> of calls/services/calls.py. The reason is \<open>None\<close> when the
  key is absent or null; both are falsy, so \<open>reason_lower\<close> is then the empty string.
\<close>

definition reason_lower :: "string option \<Rightarrow> string" where
  "reason_lower reason =
     (case reason of None \<Rightarrow> [] | Some r \<Rightarrow> if r = [] then [] else py_replace_hyphen (py_lower r))"

definition map_ended_reason :: "string option \<Rightarrow> string \<Rightarrow> string" where
  "map_ended_reason reason current_status =
     (let rl = reason_lower reason
      in if py_in ''busy'' rl then ''busy''
         else if py_in ''no_answer'' rl \<or> py_in ''did_not_answer'' rl then ''no-answer''
         else if py_in ''voicemail'' rl then ''voicemail''
         else if py_in ''error'' rl then ''failed''
         else if py_in ''silence'' rl then ''completed''
         else if current_status \<in> set TERMINAL_STATUSES then current_status
         else ''completed'')"

text \<open>\<open>_map_ended_reason\<close> of calls/services/webhook.py, the same text again.\<close>

definition webhook_map_ended_reason :: "string option \<Rightarrow> string \<Rightarrow> string" where
  "webhook_map_ended_reason reason current_status =
     (let rl = reason_lower reason
      in if py_in ''busy'' rl then ''busy''
         else if py_in ''no_answer'' rl \<or> py_in ''did_not_answer'' rl then ''no-answer''
         else if py_in ''voicemail'' rl then ''voicemail''
         else if py_in ''error'' rl then ''failed''
         else if py_in ''silence'' rl then ''completed''
         else if current_status \<in> set TERMINAL_STATUSES then current_status
         else ''completed'')"

text \<open>\<open>VAPI_STATUS_MAP.get(s)\<close> of calls/services/webhook.py.\<close>

definition VAPI_STATUS_MAP :: "(string \<times> string) list" where
  "VAPI_STATUS_MAP =
     [(''queued'', ''queued''), (''ringing'', ''ringing''), (''in-progress'', ''in-progress''),
      (''forwarding'', ''in-progress''), (''ended'', ''completed'')]"

section \<open>Data model\<close>

subsection \<open>Exceptions\<close>

text \<open>
  An exception is its class together with the text that \<open>str(exc)\<close> gives.
\<close>

datatype error_kind =
    AttributeError
  | ValueError
  | VapiAPIError
  | CallNotFoundError
  | ContactNotFoundError
  | ScriptNotFoundError
  | MaxActiveCallsError
  | CallNotCancellableError
  | OtherError

type_synonym error = "error_kind \<times> string"


subsection \<open>The Call row (calls/models.py)\<close>

text \<open>
  A point in time is a number of microseconds, the resolution of Python's
  \<open>datetime\<close>. The two columns that Django stamps by itself (\<open>created_at\<close>,
  \<open>updated_at\<close>) are not part of the record; the name \<open>updated_at\<close> still occurs in
  the \<open>update_fields\<close> lists, as in the source.
\<close>

record call =
  call_id :: string
  user :: string
  contact :: string
  script_id :: "string option"
  vapi_call_id :: "string option"
  assistant_id :: string
  phone_number_id :: "string option"
  status :: string
  outcome :: "string option"
  transcript :: "string option"
  summary :: "string option"
  analysis :: "dict option"
  started_at :: "int option"
  ended_at :: "int option"
  duration_seconds :: "int option"
  metadata :: "dict option"
  error_message :: "string option"

record contact_row =
  contact_id :: string
  contact_user :: string
  contact_name :: string
  contact_phone :: string

record call_script =
  cs_id :: string
  cs_user :: string
  cs_custom_prompt :: "string option"
  cs_first_message :: "string option"
  cs_call_goals :: "json list option"

record db =
  calls :: "call list"
  contacts :: "contact_row list"
  scripts :: "call_script list"

subsection \<open>Provider snapshots\<close>

text \<open>
  The provider's call object, with the fields and types that the docstring of
  \<open>_reconcile_call_from_vapi\<close> lists. It is the body of the pull response and the
  \<open>call\<close> member of a push message. \<open>None\<close> stands for a key that is absent or null:
  every read in the source is a \<open>.get\<close>, which does not tell the two apart in a way that
  the code observes.
\<close>

record artifact =
  art_transcript :: "string option"
  art_structuredOutputs :: "dict option"

record vapi_call =
  vc_id :: "string option"
  vc_status :: "string option"
  vc_endedReason :: "string option"
  vc_startedAt :: "string option"
  vc_endedAt :: "string option"
  vc_transcript :: "string option"
  vc_summary :: "string option"
  vc_analysis :: "dict option"
  vc_artifact :: "artifact option"
  vc_recordingUrl :: "string option"
  vc_stereoRecordingUrl :: "string option"
  vc_messages :: "json list option"
  vc_cost :: "rat option"
  vc_costBreakdown :: "dict option"

text \<open>The \<open>message\<close> member of a webhook payload.\<close>

record message =
  m_type :: "string option"
  m_call :: "vapi_call option"
  m_status :: "string option"
  m_timestamp :: "string option"
  m_endedReason :: "string option"
  m_transcript :: "string option"
  m_summary :: "string option"
  m_analysis :: "dict option"
  m_artifact :: "artifact option"
  m_recordingUrl :: "string option"
  m_stereoRecordingUrl :: "string option"
  m_messages :: "json list option"
  m_cost :: "rat option"
  m_costBreakdown :: "dict option"

definition empty_artifact :: artifact where
  "empty_artifact = \<lparr>art_transcript = None, art_structuredOutputs = None\<rparr>"

definition empty_vapi_call :: vapi_call where
  "empty_vapi_call =
     \<lparr>vc_id = None, vc_status = None, vc_endedReason = None, vc_startedAt = None,
      vc_endedAt = None, vc_transcript = None, vc_summary = None, vc_analysis = None,
      vc_artifact = None, vc_recordingUrl = None, vc_stereoRecordingUrl = None,
      vc_messages = None, vc_cost = None, vc_costBreakdown = None\<rparr>"

definition empty_message :: message where
  "empty_message =
     \<lparr>m_type = None, m_call = None, m_status = None, m_timestamp = None,
      m_endedReason = None, m_transcript = None, m_summary = None, m_analysis = None,
      m_artifact = None, m_recordingUrl = None, m_stereoRecordingUrl = None,
      m_messages = None, m_cost = None, m_costBreakdown = None\<rparr>"

subsection \<open>Truthiness of optional values\<close>

definition str_truthy :: "string option \<Rightarrow> bool" where
  "str_truthy x = (case x of None \<Rightarrow> False | Some s \<Rightarrow> s \<noteq> [])"

definition list_truthy :: "'a list option \<Rightarrow> bool" where
  "list_truthy x = (case x of None \<Rightarrow> False | Some d \<Rightarrow> d \<noteq> [])"

text \<open>\<open>a or b\<close>\<close>

definition str_or :: "string option \<Rightarrow> string option \<Rightarrow> string option" where
  "str_or a b = (if str_truthy a then a else b)"

definition list_or :: "'a list option \<Rightarrow> 'a list option \<Rightarrow> 'a list option" where
  "list_or a b = (if list_truthy a then a else b)"

text \<open>\<open>x or {}\<close> and \<open>x or ""\<close>\<close>

definition or_empty :: "'a list option \<Rightarrow> 'a list" where
  "or_empty x = (case x of None \<Rightarrow> [] | Some d \<Rightarrow> d)"

subsection \<open>Timestamps\<close>

text \<open>
  Django's \<open>parse_datetime\<close> is a parameter of the model: on a string it returns a
  datetime, returns \<open>None\<close> (the string is not well formatted) or raises \<open>ValueError\<close>
  (well formatted, but not a valid date).
\<close>

datatype parsed = Parsed int | NoMatch | Malformed

text \<open>
  The pull path (calls.py, lines 462 and 467):
  \<open>parse_datetime(d["k"]) if d.get("k") else None\<close>; the exception propagates.
\<close>

definition parse_if_present :: "(string \<Rightarrow> parsed) \<Rightarrow> string option \<Rightarrow> error + int option" where
  "parse_if_present pd x =
     (if str_truthy x
      then (case pd (the x) of
              Parsed t \<Rightarrow> Inr (Some t)
            | NoMatch \<Rightarrow> Inr None
            | Malformed \<Rightarrow> Inl (ValueError, ''invalid datetime''))
      else Inr None)"

text \<open>\<open>_parse_ts\<close> of webhook.py: best effort, the exception is swallowed.\<close>

definition parse_ts :: "(string \<Rightarrow> parsed) \<Rightarrow> string option \<Rightarrow> int option" where
  "parse_ts pd v =
     (case v of
        None \<Rightarrow> None
      | Some s \<Rightarrow> (case pd s of Parsed t \<Rightarrow> Some t | NoMatch \<Rightarrow> None | Malformed \<Rightarrow> None))"

text \<open>
  \<open>int(delta.total_seconds())\<close> for a difference \<open>delta\<close> in microseconds: \<open>int\<close>
  truncates towards zero. The division inside \<open>total_seconds\<close> is taken to be exact,
  as it is in floating point for any span a call can have; and the two datetimes are taken
  to be both aware or both naive, so that Python can subtract them.
\<close>

definition total_seconds_int :: "int \<Rightarrow> int" where
  "total_seconds_int delta =
     (if delta \<ge> 0 then delta div 1000000 else - ((- delta) div 1000000))"

section \<open>Artifact merger\<close>

text \<open>
  The state of a reconciliation in progress: the call object, mutated in place, and the
  \<open>update_fields\<close> list built so far. Each definition below is one \<open>if\<close> statement
  that \<open>_reconcile_call_from_vapi\<close> (calls.py) and \<open>_handle_end_of_call_report\<close>
  (webhook.py) both contain, with the candidate value as its argument:
  \<^item> \<open>write_started\<close>, \<open>write_ended\<close>: calls.py lines 463 to 465 and 468 to 470,
    webhook.py lines 215 to 217 and 220 to 222;
  \<^item> \<open>write_transcript\<close>: calls.py lines 474 to 476, webhook.py lines 170 to 172;
  \<^item> \<open>write_summary\<close>: calls.py lines 480 to 482, webhook.py lines 176 to 178;
  \<^item> \<open>merge_analysis\<close>, \<open>write_analysis\<close>: calls.py lines 485 to 493, webhook.py
    lines 182 to 190;
  \<^item> \<open>enriched_meta\<close>, \<open>write_metadata\<close>: calls.py lines 496 to 509, webhook.py
    lines 193 to 211;
  \<^item> \<open>write_duration\<close>: calls.py lines 512 to 515, webhook.py lines 225 to 228.
\<close>

type_synonym merge_state = "call \<times> string list"

definition write_started :: "int option \<Rightarrow> merge_state \<Rightarrow> merge_state" where
  "write_started started st =
     (case st of (c, fs) \<Rightarrow>
        if started \<noteq> None \<and> started_at c = None
        then (c\<lparr>started_at := started\<rparr>, fs @ [''started_at''])
        else (c, fs))"

definition write_ended :: "int option \<Rightarrow> merge_state \<Rightarrow> merge_state" where
  "write_ended ended st =
     (case st of (c, fs) \<Rightarrow>
        if ended \<noteq> None \<and> ended_at c = None
        then (c\<lparr>ended_at := ended\<rparr>, fs @ [''ended_at''])
        else (c, fs))"

definition write_transcript :: "string option \<Rightarrow> merge_state \<Rightarrow> merge_state" where
  "write_transcript t st =
     (case st of (c, fs) \<Rightarrow>
        if str_truthy t \<and> \<not> str_truthy (transcript c)
        then (c\<lparr>transcript := t\<rparr>, fs @ [''transcript''])
        else (c, fs))"

definition write_summary :: "string \<Rightarrow> merge_state \<Rightarrow> merge_state" where
  "write_summary s st =
     (case st of (c, fs) \<Rightarrow>
        if s \<noteq> [] \<and> \<not> str_truthy (summary c)
        then (c\<lparr>summary := Some s\<rparr>, fs @ [''summary''])
        else (c, fs))"

text \<open>
  \<open>merged_analysis\<close>: the analysis object, then the key \<open>structuredOutputs\<close> when the
  artifact has structured outputs.
\<close>

definition merge_analysis :: "dict \<Rightarrow> dict \<Rightarrow> dict" where
  "merge_analysis analysis_obj structured_outputs =
     (let merged = (if analysis_obj \<noteq> [] then analysis_obj else [])
      in if structured_outputs \<noteq> []
         then dict_set merged ''structuredOutputs'' (JObj structured_outputs)
         else merged)"

definition write_analysis :: "dict \<Rightarrow> merge_state \<Rightarrow> merge_state" where
  "write_analysis merged st =
     (case st of (c, fs) \<Rightarrow>
        if merged \<noteq> [] \<and> \<not> list_truthy (analysis c)
        then (c\<lparr>analysis := Some merged\<rparr>, fs @ [''analysis''])
        else (c, fs))"

definition enriched_meta ::
  "dict \<Rightarrow> string option \<Rightarrow> string option \<Rightarrow> json list option \<Rightarrow> rat option \<Rightarrow> dict option \<Rightarrow> dict"
where
  "enriched_meta base recording_url stereo_url msgs cost cost_breakdown =
     (let e1 = (if str_truthy recording_url
                then dict_set base ''recordingUrl'' (JStr (the recording_url)) else base);
          e2 = (if str_truthy stereo_url
                then dict_set e1 ''stereoRecordingUrl'' (JStr (the stereo_url)) else e1);
          e3 = (if list_truthy msgs then dict_set e2 ''messages'' (JArr (the msgs)) else e2);
          e4 = (case cost of Some x \<Rightarrow> dict_set e3 ''cost'' (JNum x) | None \<Rightarrow> e3)
      in if list_truthy cost_breakdown
         then dict_set e4 ''costBreakdown'' (JObj (the cost_breakdown)) else e4)"

definition write_metadata ::
  "string option \<Rightarrow> string option \<Rightarrow> json list option \<Rightarrow> rat option \<Rightarrow> dict option
     \<Rightarrow> merge_state \<Rightarrow> merge_state"
where
  "write_metadata recording_url stereo_url msgs cost cost_breakdown st =
     (case st of (c, fs) \<Rightarrow>
        let base = or_empty (metadata c);
            e = enriched_meta base recording_url stereo_url msgs cost cost_breakdown
        in if \<not> py_eq (JObj e) (JObj base)
           then (c\<lparr>metadata := Some e\<rparr>, fs @ [''metadata''])
           else (c, fs))"

definition write_duration :: "merge_state \<Rightarrow> merge_state" where
  "write_duration st =
     (case st of (c, fs) \<Rightarrow>
        if started_at c \<noteq> None \<and> ended_at c \<noteq> None
           \<and> (duration_seconds c = None \<or> duration_seconds c = Some 0)
        then (c\<lparr>duration_seconds :=
                  Some (max 0 (total_seconds_int (the (ended_at c) - the (started_at c))))\<rparr>,
              fs @ [''duration_seconds''])
        else (c, fs))"

subsection \<open>Summary extraction\<close>

text \<open>
  \<open>(x or "")\<close> as the receiver of \<open>.strip()\<close> or \<open>.lower()\<close>, where \<open>x\<close> was read
  out of a JSON object: a truthy value that is not a string has no such method.
\<close>

definition str_receiver :: "json option \<Rightarrow> error + string" where
  "str_receiver x =
     (case x of
        None \<Rightarrow> Inr []
      | Some v \<Rightarrow>
          if \<not> truthy v then Inr []
          else (case v of
                  JStr s \<Rightarrow> Inr s
                | _ \<Rightarrow> Inl (AttributeError, ''object has no attribute'')))"

text \<open>
  The loop \<open>for entry in outputs.values()\<close>, shared word for word by
  \<open>_extract_summary\<close> and \<open>_extract_summary_from_webhook\<close>; the second argument is
  \<open>fallback\<close>.
\<close>

fun outputs_summary :: "json list \<Rightarrow> string \<Rightarrow> error + string" where
  "outputs_summary [] fallback = Inr fallback"
| "outputs_summary (entry # rest) fallback =
     (case entry of
        JObj e \<Rightarrow>
          (case str_receiver (dict_get e ''result'') of
             Inl err \<Rightarrow> Inl err
           | Inr r \<Rightarrow>
               let result = py_strip r
               in if result = [] then outputs_summary rest fallback
                  else (case str_receiver (dict_get e ''name'') of
                          Inl err \<Rightarrow> Inl err
                        | Inr n \<Rightarrow>
                            if py_in ''summary'' (py_lower n) then Inr result
                            else outputs_summary rest
                                   (if fallback = [] then result else fallback)))
      | _ \<Rightarrow> Inl (AttributeError, ''object has no attribute''))"

text \<open>\<open>_extract_summary\<close> of calls.py.\<close>

definition extract_summary :: "vapi_call \<Rightarrow> artifact \<Rightarrow> error + string" where
  "extract_summary vapi_data art =
     (let s = py_strip (or_empty (vc_summary vapi_data))
      in if s \<noteq> [] then Inr s
         else (case str_receiver (dict_get (or_empty (vc_analysis vapi_data)) ''summary'') of
                 Inl err \<Rightarrow> Inl err
               | Inr a \<Rightarrow>
                   let s2 = py_strip a
                   in if s2 \<noteq> [] then Inr s2
                      else outputs_summary
                             (map snd (or_empty (art_structuredOutputs art))) []))"

text \<open>\<open>_extract_summary_from_webhook\<close> of webhook.py.\<close>

definition extract_summary_from_webhook :: "message \<Rightarrow> artifact \<Rightarrow> error + string" where
  "extract_summary_from_webhook msg art =
     (let s = py_strip (or_empty (m_summary msg))
      in if s \<noteq> [] then Inr s
         else (case str_receiver (dict_get (or_empty (m_analysis msg)) ''summary'') of
                 Inl err \<Rightarrow> Inl err
               | Inr a \<Rightarrow>
                   let s2 = py_strip a
                   in if s2 \<noteq> [] then Inr s2
                      else outputs_summary
                             (map snd (or_empty (art_structuredOutputs art))) []))"

section \<open>Reconciler, pull channel (calls/services/calls.py)\<close>

text \<open>
  \<open>_reconcile_call_from_vapi\<close>. The result is the call object as the function leaves
  it, together with the returned \<open>update_fields\<close> list or the exception raised. The
  object is mutated in place, so it keeps the writes made before an exception.
  \<open>pull_new_status\<close> is the status block (lines 447 to 453).
\<close>

definition pull_new_status :: "call \<Rightarrow> vapi_call \<Rightarrow> string" where
  "pull_new_status c vapi_data =
     (let vapi_status = vc_status vapi_data
      in if vapi_status = Some ''ended''
         then map_ended_reason (vc_endedReason vapi_data) (status c)
         else if str_truthy vapi_status then the vapi_status else status c)"

definition reconcile_call_from_vapi ::
  "(string \<Rightarrow> parsed) \<Rightarrow> call \<Rightarrow> vapi_call \<Rightarrow> call \<times> (error + string list)"
where
  "reconcile_call_from_vapi pd c vapi_data =
     (let art = (case vc_artifact vapi_data of None \<Rightarrow> empty_artifact | Some a \<Rightarrow> a);
          analysis_obj = or_empty (vc_analysis vapi_data);
          new_status = pull_new_status c vapi_data
      in if \<not> is_valid_status_transition (status c) new_status then (c, Inr [])
         else
           let st0 = (c\<lparr>status := new_status\<rparr>, [''status'', ''updated_at''])
           in case parse_if_present pd (vc_startedAt vapi_data) of
                Inl err \<Rightarrow> (fst st0, Inl err)
              | Inr started \<Rightarrow>
                  let st1 = write_started started st0
                  in case parse_if_present pd (vc_endedAt vapi_data) of
                       Inl err \<Rightarrow> (fst st1, Inl err)
                     | Inr ended \<Rightarrow>
                         let st2 = write_ended ended st1;
                             st3 = write_transcript
                                     (str_or (vc_transcript vapi_data) (art_transcript art)) st2
                         in case extract_summary vapi_data art of
                              Inl err \<Rightarrow> (fst st3, Inl err)
                            | Inr s \<Rightarrow>
                                let st4 = write_summary s st3;
                                    structured_outputs = or_empty (art_structuredOutputs art);
                                    st5 = write_analysis
                                            (merge_analysis analysis_obj structured_outputs) st4;
                                    st6 = write_metadata
                                            (vc_recordingUrl vapi_data)
                                            (vc_stereoRecordingUrl vapi_data)
                                            (vc_messages vapi_data)
                                            (vc_cost vapi_data)
                                            (vc_costBreakdown vapi_data) st5;
                                    st7 = write_duration st6
                                in (fst st7, Inr (snd st7)))"

section \<open>Push channel (calls/services/webhook.py)\<close>

text \<open>
  The body of \<open>_handle_status_update\<close> once the call is found (lines 101 to 114):
  \<open>None\<close> when the transition is refused and nothing is saved, else the mutated call and
  its \<open>update_fields\<close>.
\<close>

definition status_update_call ::
  "(string \<Rightarrow> parsed) \<Rightarrow> call \<Rightarrow> string \<Rightarrow> message \<Rightarrow> merge_state option"
where
  "status_update_call pd c new_status msg =
     (if \<not> is_valid_transition (status c) new_status then None
      else
        let st0 = (c\<lparr>status := new_status\<rparr>, [''status'', ''updated_at''])
        in if new_status = ''in-progress'' \<and> started_at c = None
           then Some ((fst st0)\<lparr>started_at := parse_ts pd (m_timestamp msg)\<rparr>,
                      snd st0 @ [''started_at''])
           else Some st0)"

text \<open>
  The body of \<open>_handle_end_of_call_report\<close> once the call is found (lines 153 to 228),
  up to the final \<open>call.save\<close>.
\<close>

definition end_of_call_report_call ::
  "(string \<Rightarrow> parsed) \<Rightarrow> call \<Rightarrow> message \<Rightarrow> call \<times> (error + string list)"
where
  "end_of_call_report_call pd c msg =
     (let art = (case m_artifact msg of None \<Rightarrow> empty_artifact | Some a \<Rightarrow> a);
          call_data = (case m_call msg of None \<Rightarrow> empty_vapi_call | Some d \<Rightarrow> d);
          new_status = webhook_map_ended_reason (m_endedReason msg) (status c);
          st1 = (if new_status \<noteq> status c
                 then (c\<lparr>status := new_status\<rparr>, [''updated_at'', ''status''])
                 else (c, [''updated_at'']));
          st2 = write_transcript (str_or (m_transcript msg) (art_transcript art)) st1
      in case extract_summary_from_webhook msg art of
           Inl err \<Rightarrow> (fst st2, Inl err)
         | Inr s \<Rightarrow>
             let st3 = write_summary s st2;
                 analysis_obj = or_empty (list_or (m_analysis msg) (vc_analysis call_data));
                 structured_outputs = or_empty (art_structuredOutputs art);
                 st4 = write_analysis (merge_analysis analysis_obj structured_outputs) st3;
                 st5 = write_metadata
                         (str_or (m_recordingUrl msg) (vc_recordingUrl call_data))
                         (str_or (m_stereoRecordingUrl msg) (vc_stereoRecordingUrl call_data))
                         (list_or (m_messages msg) (vc_messages call_data))
                         (if vc_cost call_data \<noteq> None then vc_cost call_data else m_cost msg)
                         (list_or (vc_costBreakdown call_data) (m_costBreakdown msg)) st4;
                 st6 = write_started (parse_ts pd (vc_startedAt call_data)) st5;
                 st7 = write_ended (parse_ts pd (vc_endedAt call_data)) st6;
                 st8 = write_duration st7
             in (fst st8, Inr (snd st8)))"

section \<open>Persistence\<close>

text \<open>
  \<open>call.save(update_fields=fs)\<close> writes the named columns of the object into its row
  and leaves the other columns of the row as they are. The database is taken to be
  available: no query fails for a reason of its own.
\<close>

definition copy_field :: "call \<Rightarrow> string \<Rightarrow> call \<Rightarrow> call" where
  "copy_field src f row =
     (if f = ''status'' then row\<lparr>status := status src\<rparr>
      else if f = ''vapi_call_id'' then row\<lparr>vapi_call_id := vapi_call_id src\<rparr>
      else if f = ''error_message'' then row\<lparr>error_message := error_message src\<rparr>
      else if f = ''started_at'' then row\<lparr>started_at := started_at src\<rparr>
      else if f = ''ended_at'' then row\<lparr>ended_at := ended_at src\<rparr>
      else if f = ''transcript'' then row\<lparr>transcript := transcript src\<rparr>
      else if f = ''summary'' then row\<lparr>summary := summary src\<rparr>
      else if f = ''analysis'' then row\<lparr>analysis := analysis src\<rparr>
      else if f = ''metadata'' then row\<lparr>metadata := metadata src\<rparr>
      else if f = ''duration_seconds'' then row\<lparr>duration_seconds := duration_seconds src\<rparr>
      else row)"

definition save :: "call \<Rightarrow> string list \<Rightarrow> db \<Rightarrow> db" where
  "save c fs d =
     d\<lparr>calls := map (\<lambda>row. if call_id row = call_id c then fold (copy_field c) fs row else row)
                     (calls d)\<rparr>"

text \<open>\<open>find_by_vapi_call_id\<close> of calls.py; the column is unique.\<close>

definition find_by_vapi_call_id :: "db \<Rightarrow> string \<Rightarrow> call option" where
  "find_by_vapi_call_id d vid = find (\<lambda>c. vapi_call_id c = Some vid) (calls d)"

subsection \<open>Webhook handlers\<close>

text \<open>
  A handler returns the database it leaves, or the exception that escapes from it; every
  \<open>save\<close> is the last statement of its handler, so an exception leaves the database
  as it was. The response body is \<open>{"ok": True}\<close> in every normal return.
\<close>

definition handle_status_update ::
  "(string \<Rightarrow> parsed) \<Rightarrow> db \<Rightarrow> string \<Rightarrow> message \<Rightarrow> error + db"
where
  "handle_status_update pd d vapi_call_id' msg =
     (let vapi_status = or_empty (m_status msg)
      in case map_of VAPI_STATUS_MAP vapi_status of
           None \<Rightarrow> Inr d
         | Some new_status \<Rightarrow>
             if vapi_call_id' = [] then Inr d
             else (case find_by_vapi_call_id d vapi_call_id' of
                     None \<Rightarrow> Inr d
                   | Some c \<Rightarrow>
                       (case status_update_call pd c new_status msg of
                          None \<Rightarrow> Inr d
                        | Some (c', fs) \<Rightarrow> Inr (save c' fs d))))"

definition handle_end_of_call_report ::
  "(string \<Rightarrow> parsed) \<Rightarrow> db \<Rightarrow> string \<Rightarrow> message \<Rightarrow> error + db"
where
  "handle_end_of_call_report pd d vapi_call_id' msg =
     (if vapi_call_id' = [] then Inr d
      else (case find_by_vapi_call_id d vapi_call_id' of
              None \<Rightarrow> Inr d
            | Some c \<Rightarrow>
                (case end_of_call_report_call pd c msg of
                   (c', Inl err) \<Rightarrow> Inl err
                 | (c', Inr fs) \<Rightarrow> Inr (save c' fs d))))"

definition handle_ignored ::
  "(string \<Rightarrow> parsed) \<Rightarrow> db \<Rightarrow> string \<Rightarrow> message \<Rightarrow> error + db"
where
  "handle_ignored pd d vapi_call_id' msg = Inr d"

text \<open>\<open>handle_webhook\<close>: the dispatch on the event type.\<close>

definition handle_webhook :: "(string \<Rightarrow> parsed) \<Rightarrow> db \<Rightarrow> message option \<Rightarrow> error + db" where
  "handle_webhook pd d payload_message =
     (let msg = (case payload_message of None \<Rightarrow> empty_message | Some m \<Rightarrow> m);
          event_type = or_empty (m_type msg);
          call_obj = (case m_call msg of None \<Rightarrow> empty_vapi_call | Some obj \<Rightarrow> obj);
          vapi_call_id' = or_empty (vc_id call_obj);
          handler =
            (if event_type = ''status-update'' then handle_status_update
             else if event_type = ''end-of-call-report'' then handle_end_of_call_report
             else handle_ignored)
      in handler pd d vapi_call_id' msg)"

section \<open>Service operations (calls/services/calls.py)\<close>

subsection \<open>The provider\<close>

text \<open>
  The three requests of calls/services/vapi.py, each answering with the provider's call
  object or raising. What the provider answers is not decided by this code, so the
  provider is a parameter.
\<close>

record outbound_request =
  rq_assistant_id :: string
  rq_phone_number_id :: string
  rq_customer_number :: string
  rq_customer_name :: string
  rq_custom_prompt :: "string option"
  rq_first_message :: "string option"
  rq_call_goals :: "json list option"
  rq_metadata :: dict

record provider =
  create_outbound_call :: "outbound_request \<Rightarrow> error + vapi_call"
  vapi_get_call :: "string \<Rightarrow> error + vapi_call"
  end_call :: "string \<Rightarrow> error + vapi_call"

subsection \<open>Read with opportunistic sync\<close>

text \<open>
  \<open>get_call\<close>. An exception of the provider request or of the reconciliation is caught
  and the call object is returned as it is at that moment.
\<close>

definition get_call ::
  "(string \<Rightarrow> parsed) \<Rightarrow> provider \<Rightarrow> db \<Rightarrow> string \<Rightarrow> string \<Rightarrow> db \<times> (error + call)"
where
  "get_call pd prov d cid usr =
     (case find (\<lambda>c. call_id c = cid \<and> user c = usr) (calls d) of
        None \<Rightarrow> (d, Inl (CallNotFoundError, ''Call '' @ cid @ '' not found.''))
      | Some c \<Rightarrow>
          if status c \<in> set ACTIVE_STATUSES \<and> str_truthy (vapi_call_id c)
          then (case vapi_get_call prov (the (vapi_call_id c)) of
                  Inl err \<Rightarrow> (d, Inr c)
                | Inr vapi_data \<Rightarrow>
                    (case reconcile_call_from_vapi pd c vapi_data of
                       (c', Inl err) \<Rightarrow> (d, Inr c')
                     | (c', Inr update_fields) \<Rightarrow>
                         if update_fields \<noteq> [] then (save c' update_fields d, Inr c')
                         else (d, Inr c')))
          else (d, Inr c))"

subsection \<open>Cancel\<close>




subsection \<open>Manual sync\<close>

text \<open>\<open>sync_call_status\<close>: here the exceptions of the poll are not caught.\<close>

definition sync_call_status ::
  "(string \<Rightarrow> parsed) \<Rightarrow> provider \<Rightarrow> db \<Rightarrow> string \<Rightarrow> string \<Rightarrow> db \<times> (error + call)"
where
  "sync_call_status pd prov d cid usr =
     (case get_call pd prov d cid usr of
        (d1, Inl err) \<Rightarrow> (d1, Inl err)
      | (d1, Inr c) \<Rightarrow>
          if \<not> str_truthy (vapi_call_id c)
          then (d1, Inl (CallNotCancellableError, ''Call has no provider reference to sync.''))
          else (case vapi_get_call prov (the (vapi_call_id c)) of
                  Inl err \<Rightarrow> (d1, Inl err)
                | Inr vapi_data \<Rightarrow>
                    (case reconcile_call_from_vapi pd c vapi_data of
                       (c', Inl err) \<Rightarrow> (d1, Inl err)
                     | (c', Inr update_fields) \<Rightarrow>
                         if update_fields \<noteq> [] then (save c' update_fields d1, Inr c')
                         else (d1, Inr c'))))"

subsection \<open>Create\<close>

record create_args =
  ca_contact_id :: string
  ca_assistant_id :: string
  ca_phone_number_id :: string
  ca_script_id :: "string option"
  ca_custom_prompt :: "string option"
  ca_first_message :: "string option"
  ca_call_goals :: "json list option"
  ca_metadata :: "dict option"




section \<open>Example data\<close>

text \<open>
  What \<open>parse_datetime\<close> answers on the timestamps of the examples: two instants ninety
  seconds apart, and a string that is well formatted but names no date.
\<close>

definition example_parse :: "string \<Rightarrow> parsed" where
  "example_parse s =
     (if s = ''2024-05-01T10:00:00Z'' then Parsed 1714557600000000
      else if s = ''2024-05-01T10:01:30Z'' then Parsed 1714557690000000
      else if s = ''2024-13-01T10:00:00Z'' then Malformed
      else NoMatch)"

definition example_call :: call where
  "example_call =
     \<lparr>call_id = ''call-1'', user = ''user-1'', contact = ''contact-1'', script_id = None,
      vapi_call_id = Some ''vapi-1'', assistant_id = ''assistant-1'',
      phone_number_id = Some ''line-1'', status = ''in-progress'', outcome = None,
      transcript = None, summary = None, analysis = None, started_at = None, ended_at = None,
      duration_seconds = None, metadata = None, error_message = None\<rparr>"

text \<open>A call whose content fields have all been written by an earlier snapshot.\<close>

definition example_written_call :: call where
  "example_written_call =
     example_call
       \<lparr>status := ''completed'',
        transcript := Some ''AI: Hello. User: Hi.'',
        summary := Some ''Greeted the customer.'',
        analysis := Some [(''successEvaluation'', JBool True)],
        started_at := Some 1714557600000000,
        ended_at := Some 1714557690000000,
        duration_seconds := Some 90\<rparr>"

definition example_contact :: contact_row where
  "example_contact =
     \<lparr>contact_id = ''contact-1'', contact_user = ''user-1'', contact_name = ''Ada'',
      contact_phone = ''+15550100''\<rparr>"

definition example_db :: db where
  "example_db = \<lparr>calls = [example_call], contacts = [example_contact], scripts = []\<rparr>"

definition example_args :: create_args where
  "example_args =
     \<lparr>ca_contact_id = ''contact-1'', ca_assistant_id = ''assistant-1'',
      ca_phone_number_id = ''line-1'', ca_script_id = None, ca_custom_prompt = None,
      ca_first_message = None, ca_call_goals = None, ca_metadata = None\<rparr>"




text \<open>A pull response of an ended call, and the same report as a push message.\<close>

definition example_ended :: vapi_call where
  "example_ended =
     empty_vapi_call
       \<lparr>vc_id := Some ''vapi-1'',
        vc_status := Some ''ended'',
        vc_endedReason := Some ''customer-ended-call'',
        vc_startedAt := Some ''2024-05-01T10:00:00Z'',
        vc_endedAt := Some ''2024-05-01T10:01:30Z'',
        vc_transcript := Some ''AI: Good morning. User: Wrong number.'',
        vc_summary := Some ''Wrong number.'',
        vc_analysis := Some [(''successEvaluation'', JBool False)],
        vc_recordingUrl := Some ''https://storage.example/rec.wav'',
        vc_cost := Some 1\<rparr>"

definition example_report :: message where
  "example_report =
     empty_message
       \<lparr>m_type := Some ''end-of-call-report'',
        m_call := Some example_ended,
        m_endedReason := Some ''customer-ended-call'',
        m_transcript := Some ''AI: Good morning. User: Wrong number.'',
        m_summary := Some ''Wrong number.'',
        m_analysis := Some [(''successEvaluation'', JBool False)],
        m_recordingUrl := Some ''https://storage.example/rec.wav'',
        m_cost := Some 1\<rparr>"

definition example_status_update :: "string \<Rightarrow> message" where
  "example_status_update s =
     empty_message
       \<lparr>m_type := Some ''status-update'',
        m_call := Some (empty_vapi_call\<lparr>vc_id := Some ''vapi-1''\<rparr>),
        m_status := Some s,
        m_timestamp := Some ''2024-05-01T10:00:00Z''\<rparr>"

text \<open>The example call after the ended snapshot has been merged into it.\<close>

definition example_synced_call :: call where
  "example_synced_call =
     example_call
       \<lparr>status := ''completed'',
        transcript := Some ''AI: Good morning. User: Wrong number.'',
        summary := Some ''Wrong number.'',
        analysis := Some [(''successEvaluation'', JBool False)],
        started_at := Some 1714557600000000,
        ended_at := Some 1714557690000000,
        duration_seconds := Some 90,
        metadata := Some [(''recordingUrl'', JStr ''https://storage.example/rec.wav''),
                          (''cost'', JNum 1)]\<rparr>"

definition example_synced_fields :: "string list" where
  "example_synced_fields =
     [''status'', ''updated_at'', ''started_at'', ''ended_at'', ''transcript'', ''summary'',
      ''analysis'', ''metadata'', ''duration_seconds'']"


section \<open>Properties stated about the reconciliation\<close>

text \<open>
  First write wins: a content field that is non-empty in \<open>c\<close> (truthy, as the code
  tests it) has the same value in \<open>c'\<close>.
\<close>

definition first_writes_kept :: "call \<Rightarrow> call \<Rightarrow> bool" where
  "first_writes_kept c c' \<longleftrightarrow>
     (str_truthy (transcript c) \<longrightarrow> transcript c' = transcript c)
   \<and> (str_truthy (summary c) \<longrightarrow> summary c' = summary c)
   \<and> (list_truthy (analysis c) \<longrightarrow> analysis c' = analysis c)
   \<and> (started_at c \<noteq> None \<longrightarrow> started_at c' = started_at c)
   \<and> (ended_at c \<noteq> None \<longrightarrow> ended_at c' = ended_at c)"





text \<open>
  Two merge states with the same call object and the same field names, in any order and
  up to the name \<open>status\<close> (the pull path always lists it, the push path lists it
  when the status changed).
\<close>

definition same_merge :: "merge_state \<Rightarrow> merge_state \<Rightarrow> bool" where
  "same_merge a b \<longleftrightarrow>
     fst a = fst b \<and> insert ''status'' (set (snd a)) = insert ''status'' (set (snd b))"




section \<open>Verified properties\<close>

subsection \<open>Evaluation rules\<close>

lemmas eval_strings = reason_lower_def py_lower_def py_replace_hyphen_def lower_char_def
  lower_table_def

lemmas eval_lattice = status_order_def STATUS_ORDER_def TERMINAL_STATUSES_def
  ACTIVE_STATUSES_def CallStatus_def VAPI_STATUS_MAP_def

lemmas eval_examples = example_call_def example_written_call_def example_db_def
  example_contact_def example_args_def example_ended_def example_report_def
  example_status_update_def example_parse_def example_synced_call_def
  example_synced_fields_def empty_vapi_call_def empty_message_def empty_artifact_def

subsection \<open>Transition guard\<close>

lemma status_order_cases:
  "status_order s = 0 \<or> status_order s = 1 \<or> status_order s = 2 \<or> status_order s = 3
     \<or> status_order s = 4 \<or> status_order s = 10"
  by (simp add: status_order_def STATUS_ORDER_def)

lemma guards_agree: "is_valid_transition a b = is_valid_status_transition a b"
  by (simp add: is_valid_transition_def is_valid_status_transition_def)

lemma guard_iff:
  "is_valid_status_transition current candidate \<longleftrightarrow>
     status_order candidate = 10 \<or> status_order candidate \<ge> status_order current"
  using status_order_cases [of candidate] status_order_cases [of current]
  by (auto simp add: is_valid_status_transition_def Let_def)

text \<open>
  C3: on the status lattice the transition guard (both copies of it) accepts a candidate
  exactly when its order is 10 or at least the order of the current status; and a
  status-update push reporting \<open>queued\<close> for a call that is \<open>in-progress\<close> is refused
  and leaves the database as it was.
\<close>

theorem transition_guard_on_lattice:
  "(\<forall>current \<in> set CallStatus. \<forall>candidate \<in> set CallStatus.
      (is_valid_status_transition current candidate \<longleftrightarrow>
         status_order candidate = 10 \<or> status_order candidate \<ge> status_order current)
    \<and> (is_valid_transition current candidate \<longleftrightarrow>
         status_order candidate = 10 \<or> status_order candidate \<ge> status_order current))
   \<and> (\<forall>pd d vid c msg.
         find_by_vapi_call_id d vid = Some c \<and> status c = ''in-progress''
           \<and> m_status msg = Some ''queued''
         \<longrightarrow> status_update_call pd c ''queued'' msg = None
             \<and> handle_status_update pd d vid msg = Inr d)"
proof -
  have inner: "status_update_call pd c ''queued'' msg = None"
    if "status c = ''in-progress''" for pd c msg
    using that
    by (simp add: status_update_call_def is_valid_transition_def status_order_def
        STATUS_ORDER_def)
  have outer: "handle_status_update pd d vid msg = Inr d"
    if "find_by_vapi_call_id d vid = Some c" "status c = ''in-progress''"
       "m_status msg = Some ''queued''" for pd d vid c msg
    using that inner [of c pd msg]
    by (simp add: handle_status_update_def or_empty_def VAPI_STATUS_MAP_def)
  show ?thesis
    using inner outer by (simp add: guards_agree guard_iff)
qed

theorem transition_guard_on_lattice_witness:
  "''in-progress'' \<in> set CallStatus \<and> ''queued'' \<in> set CallStatus \<and> ''busy'' \<in> set CallStatus
   \<and> \<not> is_valid_status_transition ''in-progress'' ''queued''
   \<and> is_valid_transition ''in-progress'' ''busy''
   \<and> find_by_vapi_call_id example_db ''vapi-1'' = Some example_call
   \<and> status example_call = ''in-progress''
   \<and> m_status (example_status_update ''queued'') = Some ''queued''
   \<and> handle_webhook example_parse example_db (Some (example_status_update ''queued''))
       = Inr example_db"
proof -
  have mem: "''in-progress'' \<in> set CallStatus" "''queued'' \<in> set CallStatus"
    "''busy'' \<in> set CallStatus"
    by (simp_all add: eval_lattice)
  have found: "find_by_vapi_call_id example_db ''vapi-1'' = Some example_call"
    by (simp add: find_by_vapi_call_id_def example_db_def example_call_def)
  have st: "status example_call = ''in-progress''"
    "m_status (example_status_update ''queued'') = Some ''queued''"
    by (simp_all add: example_call_def example_status_update_def)
  have disp: "handle_webhook example_parse example_db (Some (example_status_update ''queued''))
      = handle_status_update example_parse example_db ''vapi-1'' (example_status_update ''queued'')"
    by (simp add: handle_webhook_def example_status_update_def empty_message_def
        empty_vapi_call_def or_empty_def)
  from transition_guard_on_lattice mem found st disp show ?thesis
    by (simp add: eval_lattice)
qed

subsection \<open>End-reason classification\<close>

text \<open>
  C4: the end reason, lower-cased and with hyphens turned into underscores, is classified
  in the fixed priority order busy, no-answer, voicemail, failed (error), completed
  (silence); a reason with none of the keywords keeps a terminal current status and
  otherwise gives completed. Both copies of the function agree, the named examples
  evaluate as stated, and a reason with both \<open>busy\<close> and \<open>error\<close> is busy.
\<close>

theorem end_reason_priority:
  "webhook_map_ended_reason reason cur = map_ended_reason reason cur
   \<and> (let rl = reason_lower reason in
        (py_in ''busy'' rl \<longrightarrow> map_ended_reason reason cur = ''busy'')
      \<and> (\<not> py_in ''busy'' rl \<and> (py_in ''no_answer'' rl \<or> py_in ''did_not_answer'' rl)
           \<longrightarrow> map_ended_reason reason cur = ''no-answer'')
      \<and> (\<not> py_in ''busy'' rl \<and> \<not> py_in ''no_answer'' rl \<and> \<not> py_in ''did_not_answer'' rl
           \<and> py_in ''voicemail'' rl
           \<longrightarrow> map_ended_reason reason cur = ''voicemail'')
      \<and> (\<not> py_in ''busy'' rl \<and> \<not> py_in ''no_answer'' rl \<and> \<not> py_in ''did_not_answer'' rl
           \<and> \<not> py_in ''voicemail'' rl \<and> py_in ''error'' rl
           \<longrightarrow> map_ended_reason reason cur = ''failed'')
      \<and> (\<not> py_in ''busy'' rl \<and> \<not> py_in ''no_answer'' rl \<and> \<not> py_in ''did_not_answer'' rl
           \<and> \<not> py_in ''voicemail'' rl \<and> \<not> py_in ''error'' rl \<and> py_in ''silence'' rl
           \<longrightarrow> map_ended_reason reason cur = ''completed'')
      \<and> (\<not> py_in ''busy'' rl \<and> \<not> py_in ''no_answer'' rl \<and> \<not> py_in ''did_not_answer'' rl
           \<and> \<not> py_in ''voicemail'' rl \<and> \<not> py_in ''error'' rl \<and> \<not> py_in ''silence'' rl
           \<longrightarrow> map_ended_reason reason cur
                 = (if cur \<in> set TERMINAL_STATUSES then cur else ''completed''))
      \<and> (py_in ''busy'' rl \<and> py_in ''error'' rl \<longrightarrow> map_ended_reason reason cur = ''busy''))
   \<and> map_ended_reason (Some ''customer-busy'') cur = ''busy''
   \<and> map_ended_reason (Some ''customer-did-not-answer'') cur = ''no-answer''
   \<and> map_ended_reason (Some ''silence-timed-out'') cur = ''completed''
   \<and> map_ended_reason (Some ''assistant-error'') cur = ''failed''
   \<and> map_ended_reason (Some ''customer-ended-call'') ''in-progress'' = ''completed''
   \<and> map_ended_reason (Some ''customer-ended-call'') ''failed'' = ''failed''"
proof -
  have a: "webhook_map_ended_reason reason cur = map_ended_reason reason cur"
    by (simp add: webhook_map_ended_reason_def map_ended_reason_def)
  have b: "map_ended_reason (Some ''customer-busy'') cur = ''busy''"
    by (simp add: map_ended_reason_def eval_strings)
  have c: "map_ended_reason (Some ''customer-did-not-answer'') cur = ''no-answer''"
    by (simp add: map_ended_reason_def eval_strings)
  have d: "map_ended_reason (Some ''silence-timed-out'') cur = ''completed''"
    by (simp add: map_ended_reason_def eval_strings)
  have e: "map_ended_reason (Some ''assistant-error'') cur = ''failed''"
    by (simp add: map_ended_reason_def eval_strings)
  have f: "map_ended_reason (Some ''customer-ended-call'') ''in-progress'' = ''completed''"
    by (simp add: map_ended_reason_def eval_strings TERMINAL_STATUSES_def)
  have g: "map_ended_reason (Some ''customer-ended-call'') ''failed'' = ''failed''"
    by (simp add: map_ended_reason_def eval_strings TERMINAL_STATUSES_def)
  show ?thesis
    unfolding a Let_def
    apply (intro conjI)
    apply (simp_all add: b c d e f g)
    apply (simp_all add: map_ended_reason_def)
    done
qed

theorem end_reason_priority_witness:
  "py_in ''busy'' (reason_lower (Some ''Customer-Busy-Error''))
   \<and> py_in ''error'' (reason_lower (Some ''Customer-Busy-Error''))
   \<and> map_ended_reason (Some ''Customer-Busy-Error'') ''in-progress'' = ''busy''
   \<and> py_in ''voicemail'' (reason_lower (Some ''pipeline-error-voicemail''))
   \<and> map_ended_reason (Some ''pipeline-error-voicemail'') ''ringing'' = ''voicemail''
   \<and> py_in ''no_answer'' (reason_lower (Some ''Twilio-No-Answer''))
   \<and> webhook_map_ended_reason (Some ''Twilio-No-Answer'') ''ringing'' = ''no-answer''
   \<and> map_ended_reason (Some ''hangup'') ''cancelled'' = ''cancelled''
   \<and> map_ended_reason None ''ringing'' = ''completed''"
  using end_reason_priority [of "Some ''Customer-Busy-Error''" "''in-progress''"]
    end_reason_priority [of "Some ''pipeline-error-voicemail''" "''ringing''"]
    end_reason_priority [of "Some ''Twilio-No-Answer''" "''ringing''"]
    end_reason_priority [of "Some ''hangup''" "''cancelled''"]
    end_reason_priority [of None "''ringing''"]
  by (simp add: eval_strings TERMINAL_STATUSES_def)

subsection \<open>First write wins\<close>

lemma kept_refl: "first_writes_kept c c"
  by (simp add: first_writes_kept_def)

lemma kept_upd:
  assumes "first_writes_kept c a"
  shows "first_writes_kept c (a\<lparr>status := s\<rparr>)"
    and "first_writes_kept c (a\<lparr>duration_seconds := d\<rparr>)"
    and "first_writes_kept c (a\<lparr>metadata := m\<rparr>)"
    and "\<not> str_truthy (transcript a) \<Longrightarrow> first_writes_kept c (a\<lparr>transcript := t\<rparr>)"
    and "\<not> str_truthy (summary a) \<Longrightarrow> first_writes_kept c (a\<lparr>summary := u\<rparr>)"
    and "\<not> list_truthy (analysis a) \<Longrightarrow> first_writes_kept c (a\<lparr>analysis := an\<rparr>)"
    and "started_at a = None \<Longrightarrow> first_writes_kept c (a\<lparr>started_at := sa\<rparr>)"
    and "ended_at a = None \<Longrightarrow> first_writes_kept c (a\<lparr>ended_at := ea\<rparr>)"
  using assms by (simp_all add: first_writes_kept_def) force+

lemma kept_started:
  "first_writes_kept c (fst st) \<Longrightarrow> first_writes_kept c (fst (write_started x st))"
  by (cases st) (simp add: write_started_def kept_upd)

lemma kept_ended:
  "first_writes_kept c (fst st) \<Longrightarrow> first_writes_kept c (fst (write_ended x st))"
  by (cases st) (simp add: write_ended_def kept_upd)

lemma kept_transcript:
  "first_writes_kept c (fst st) \<Longrightarrow> first_writes_kept c (fst (write_transcript x st))"
  by (cases st) (simp add: write_transcript_def kept_upd)

lemma kept_summary:
  "first_writes_kept c (fst st) \<Longrightarrow> first_writes_kept c (fst (write_summary x st))"
  by (cases st) (simp add: write_summary_def kept_upd)

lemma kept_analysis:
  "first_writes_kept c (fst st) \<Longrightarrow> first_writes_kept c (fst (write_analysis x st))"
  by (cases st) (simp add: write_analysis_def kept_upd)

lemma kept_metadata:
  "first_writes_kept c (fst st) \<Longrightarrow> first_writes_kept c (fst (write_metadata r s m k b st))"
  by (cases st) (simp add: write_metadata_def Let_def kept_upd)

lemma kept_duration:
  "first_writes_kept c (fst st) \<Longrightarrow> first_writes_kept c (fst (write_duration st))"
  by (cases st) (simp add: write_duration_def kept_upd)

lemmas kept_steps = kept_started kept_ended kept_transcript kept_summary kept_analysis
  kept_metadata kept_duration

lemma reconcile_keeps: "first_writes_kept c (fst (reconcile_call_from_vapi pd c v))"
  unfolding reconcile_call_from_vapi_def Let_def
  by (simp split: sum.splits add: kept_steps kept_upd kept_refl)

lemma end_of_call_keeps: "first_writes_kept c (fst (end_of_call_report_call pd c m))"
  unfolding end_of_call_report_call_def Let_def
  by (simp split: sum.splits add: kept_steps kept_upd kept_refl)

lemma status_update_keeps:
  "status_update_call pd c s m = Some (c', fs) \<Longrightarrow> first_writes_kept c c'"
  unfolding status_update_call_def Let_def
  by (auto split: if_splits simp add: kept_upd kept_refl)

text \<open>
  C8: transcript, summary, analysis, startedAt and endedAt are first-write-wins. Whatever
  the snapshot holds, a field that is already non-empty keeps its value through the pull
  reconciliation (also when it ends in an exception), through the end-of-call-report
  handler and through the status-update handler.
\<close>

theorem first_write_wins:
  "first_writes_kept c (fst (reconcile_call_from_vapi pd c vapi_data))
   \<and> first_writes_kept c (fst (end_of_call_report_call pd c msg))
   \<and> (\<forall>c' fs. status_update_call pd c new_status msg = Some (c', fs)
        \<longrightarrow> first_writes_kept c c')"
  using reconcile_keeps end_of_call_keeps status_update_keeps by blast

theorem first_write_wins_witness:
  "str_truthy (transcript example_written_call)
   \<and> str_truthy (summary example_written_call)
   \<and> list_truthy (analysis example_written_call)
   \<and> started_at example_written_call \<noteq> None
   \<and> ended_at example_written_call \<noteq> None
   \<and> transcript (fst (reconcile_call_from_vapi example_parse example_written_call example_ended))
       = Some ''AI: Hello. User: Hi.''
   \<and> summary (fst (end_of_call_report_call example_parse example_written_call example_report))
       = Some ''Greeted the customer.''
   \<and> analysis (fst (end_of_call_report_call example_parse example_written_call example_report))
       = Some [(''successEvaluation'', JBool True)]
   \<and> started_at (fst (reconcile_call_from_vapi example_parse example_written_call example_ended))
       = Some 1714557600000000
   \<and> ended_at (fst (reconcile_call_from_vapi example_parse example_written_call example_ended))
       = Some 1714557690000000"
  using first_write_wins [of example_written_call example_parse example_ended example_report]
  by (simp add: first_writes_kept_def example_written_call_def example_call_def
      str_truthy_def list_truthy_def)

subsection \<open>Duration\<close>























subsection \<open>Saving rows\<close>





subsection \<open>Call creation\<close>






subsection \<open>Cancellation after the opportunistic sync\<close>



















subsection \<open>Terminal statuses under reconciliation\<close>

text \<open>
  C1, evaluated on the code: a call that is already completed and receives an end-of-call
  snapshot whose reason contains a keyword is moved to another terminal status, on the
  push path and on the pull path; and a status-update push reporting \<open>ended\<close> moves a
  cancelled call to completed. The keyword tests of \<open>_map_ended_reason\<close> come before its
  test for a terminal current status, and the guard accepts every candidate of order 10.
\<close>

theorem terminal_status_overwritten:
  "status example_written_call = ''completed''
   \<and> status (fst (end_of_call_report_call example_parse example_written_call
                     (example_report\<lparr>m_endedReason := Some ''customer-busy''\<rparr>))) = ''busy''
   \<and> status (fst (reconcile_call_from_vapi example_parse example_written_call
                     (example_ended\<lparr>vc_endedReason := Some ''customer-busy''\<rparr>))) = ''busy''
   \<and> handle_webhook example_parse
        (example_db\<lparr>calls := [example_call\<lparr>status := ''cancelled''\<rparr>]\<rparr>)
        (Some (example_status_update ''ended''))
       = Inr (example_db\<lparr>calls := [example_call\<lparr>status := ''completed''\<rparr>]\<rparr>)"
  by code_simp

subsection \<open>The change set of a repeated reconciliation\<close>

text \<open>
  C5, evaluated on the code: the ended snapshot is merged into the example call, and the
  same snapshot is reconciled again. The second run leaves the record as it is and
  returns the field list \<open>status, updated_at\<close>, not the empty list.
\<close>

theorem second_reconciliation_lists_fields:
  "reconcile_call_from_vapi example_parse example_call example_ended
     = (example_synced_call, Inr example_synced_fields)
   \<and> reconcile_call_from_vapi example_parse example_synced_call example_ended
     = (example_synced_call, Inr [''status'', ''updated_at''])"
  by code_simp

subsection \<open>Unmapped provider statuses\<close>


subsection \<open>Push and pull\<close>

lemma sm_refl: "same_merge a a"
  by (simp add: same_merge_def)
















































end
